theory Spec2Isabelle
  imports Complex_Main
begin

section \<open>Patchwork Gaussian process: features and covariance dispatch\<close>

text \<open>
  Source: \<^verbatim>\<open>include/albatross/src/models/patchwork_gp.hpp\<close>.

  Numbers of type \<^verbatim>\<open>double\<close> are modelled by \<^typ>\<open>real\<close>: the dispatch and the block
  algebra only negate, double and add the values that the covariance function returns.
\<close>

subsection \<open>BoundaryFeature and GroupFeature\<close>

text \<open>
  \<^verbatim>\<open>BoundaryFeature(key_i, key_j, feature)\<close> stands for the quantity
  \<^verbatim>\<open>model_i.predict(feature) - model_j.predict(feature)\<close>. The constructor stores its
  three arguments and checks nothing.
\<close>

datatype ('k, 'f) BoundaryFeature =
  BoundaryFeature (lhs: 'k) (rhs: 'k) (feature: 'f)

definition as_boundary_feature :: "'k \<Rightarrow> 'k \<Rightarrow> 'f \<Rightarrow> ('k, 'f) BoundaryFeature" where
  "as_boundary_feature l r f = BoundaryFeature l r f"

text \<open>The loop of \<^verbatim>\<open>as_boundary_features\<close> appends one feature per element, in order.\<close>

fun as_boundary_features :: "'k \<Rightarrow> 'k \<Rightarrow> 'f list \<Rightarrow> ('k, 'f) BoundaryFeature list" where
  "as_boundary_features l r [] = []"
| "as_boundary_features l r (f # features) =
     as_boundary_feature l r f # as_boundary_features l r features"

datatype ('k, 'f) GroupFeature =
  GroupFeature (key: 'k) (feature: 'f)

definition as_group_feature :: "'k \<Rightarrow> 'f \<Rightarrow> ('k, 'f) GroupFeature" where
  "as_group_feature k f = GroupFeature k f"

fun as_group_features :: "'k \<Rightarrow> 'f list \<Rightarrow> ('k, 'f) GroupFeature list" where
  "as_group_features k [] = []"
| "as_group_features k (f # features) = as_group_feature k f # as_group_features k features"

subsection \<open>PatchworkCallerBase and PatchworkCaller\<close>

text \<open>
  The arguments of the covariance evaluator are C++ overloads on the static type of each
  argument. The three kinds of argument are collected in one tagged union; a pair of kinds
  for which no overload is viable (the call does not compile) evaluates to \<^term>\<open>None\<close>.

  The parameter \<open>k\<close> is \<^verbatim>\<open>SubCaller::call(cov_func, _, _)\<close> on raw features, that is the
  \<^verbatim>\<open>DefaultCaller\<close> applied to the covariance function.
\<close>

datatype ('k, 'f) arg =
  Raw 'f
| Group "('k, 'f) GroupFeature"
| Boundary "('k, 'f) BoundaryFeature"

text \<open>The overload for two group features.\<close>

definition call_GroupFeature_GroupFeature ::
  "('f \<Rightarrow> 'f \<Rightarrow> real) \<Rightarrow> ('k, 'f) GroupFeature \<Rightarrow> ('k, 'f) GroupFeature \<Rightarrow> real" where
  "call_GroupFeature_GroupFeature k x y =
     (if key x = key y then k (GroupFeature.feature x) (GroupFeature.feature y)
      else 0)"

text \<open>The overload for a group feature against a boundary feature.\<close>

definition call_GroupFeature_BoundaryFeature ::
  "('f \<Rightarrow> 'f \<Rightarrow> real) \<Rightarrow> ('k, 'f) GroupFeature \<Rightarrow> ('k, 'f) BoundaryFeature \<Rightarrow> real" where
  "call_GroupFeature_BoundaryFeature k x y =
     (if key x = lhs y then k (GroupFeature.feature x) (BoundaryFeature.feature y)
      else if key x = rhs y then - k (GroupFeature.feature x) (BoundaryFeature.feature y)
      else 0)"

text \<open>The overload for two boundary features.\<close>

definition call_BoundaryFeature_BoundaryFeature ::
  "('f \<Rightarrow> 'f \<Rightarrow> real) \<Rightarrow> ('k, 'f) BoundaryFeature \<Rightarrow> ('k, 'f) BoundaryFeature \<Rightarrow> real" where
  "call_BoundaryFeature_BoundaryFeature k x y =
     (if lhs x = lhs y \<and> rhs x = rhs y
        then 2 * k (BoundaryFeature.feature x) (BoundaryFeature.feature y)
      else if lhs x = lhs y \<and> rhs x \<noteq> rhs y
        then k (BoundaryFeature.feature x) (BoundaryFeature.feature y)
      else if lhs x \<noteq> lhs y \<and> rhs x = rhs y
        then k (BoundaryFeature.feature x) (BoundaryFeature.feature y)
      else if lhs x = rhs y \<and> rhs x \<noteq> lhs y
        then - k (BoundaryFeature.feature x) (BoundaryFeature.feature y)
      else if lhs x \<noteq> rhs y \<and> rhs x = lhs y
        then - k (BoundaryFeature.feature x) (BoundaryFeature.feature y)
      else 0)"

text \<open>
  Overload resolution of \<^verbatim>\<open>PatchworkCallerBase::call\<close>: the first overload passes two raw
  features to the sub-caller, the other three are the ones above.
\<close>

fun PatchworkCallerBase_call ::
  "('f \<Rightarrow> 'f \<Rightarrow> real) \<Rightarrow> ('k, 'f) arg \<Rightarrow> ('k, 'f) arg \<Rightarrow> real option" where
  "PatchworkCallerBase_call k (Raw x) (Raw y) = Some (k x y)"
| "PatchworkCallerBase_call k (Group x) (Group y) = Some (call_GroupFeature_GroupFeature k x y)"
| "PatchworkCallerBase_call k (Group x) (Boundary y) =
     Some (call_GroupFeature_BoundaryFeature k x y)"
| "PatchworkCallerBase_call k (Boundary x) (Boundary y) =
     Some (call_BoundaryFeature_BoundaryFeature k x y)"
| "PatchworkCallerBase_call k _ _ = None"

text \<open>
  Modelled from the spec: \<^verbatim>\<open>internal::SymmetricCaller\<close> is not part of this source file.
  The comment above \<^verbatim>\<open>PatchworkCaller\<close> says that it "tries symmetric versions of the
  PatchworkCallerBase", and the specification describes a "symmetric try/fallback chain":
  the sub-caller is tried on \<open>(x, y)\<close>, and on \<open>(y, x)\<close> when it has no overload for
  \<open>(x, y)\<close>.
\<close>

definition SymmetricCaller_call ::
  "('a \<Rightarrow> 'a \<Rightarrow> real option) \<Rightarrow> 'a \<Rightarrow> 'a \<Rightarrow> real option" where
  "SymmetricCaller_call sub x y =
     (case sub x y of Some v \<Rightarrow> Some v | None \<Rightarrow> sub y x)"

definition PatchworkCaller_call ::
  "('f \<Rightarrow> 'f \<Rightarrow> real) \<Rightarrow> ('k, 'f) arg \<Rightarrow> ('k, 'f) arg \<Rightarrow> real option" where
  "PatchworkCaller_call k = SymmetricCaller_call (PatchworkCallerBase_call k)"

section \<open>Errors, matrices and grouped collections\<close>

text \<open>
  A failed \<^verbatim>\<open>assert\<close> of the source is \<open>PreconditionViolation\<close>; a dimension check that
  fails inside a matrix operation is \<open>ShapeMismatch\<close>; \<^verbatim>\<open>at(key)\<close> on a missing key is
  \<open>KeyNotFound\<close>; a coefficient index out of range is \<open>IndexOutOfBounds\<close>.
\<close>

datatype error = PreconditionViolation | ShapeMismatch | KeyNotFound | IndexOutOfBounds

definition ebind :: "error + 'a \<Rightarrow> ('a \<Rightarrow> error + 'b) \<Rightarrow> error + 'b" where
  "ebind m f = (case m of Inl e \<Rightarrow> Inl e | Inr x \<Rightarrow> f x)"

subsection \<open>Dense matrices\<close>

text \<open>
  \<^verbatim>\<open>Eigen::MatrixXd\<close>: a number of rows, a number of columns and the coefficients. A
  \<^verbatim>\<open>VectorXd\<close> is a matrix with one column. Two matrices are equal as \<^verbatim>\<open>operator==\<close>
  has it (\<open>mat_eq\<close>) when they have the same shape and the same coefficients inside it.
\<close>

datatype MatrixXd = MatrixXd (rows: nat) (cols: nat) (coeff: "nat \<Rightarrow> nat \<Rightarrow> real")

definition msize :: "MatrixXd \<Rightarrow> nat" where
  "msize m = rows m * cols m"

definition to_lists :: "MatrixXd \<Rightarrow> real list list" where
  "to_lists m = map (\<lambda>i. map (\<lambda>j. coeff m i j) [0..<cols m]) [0..<rows m]"

definition of_lists :: "nat \<Rightarrow> nat \<Rightarrow> real list list \<Rightarrow> MatrixXd" where
  "of_lists r c xss = MatrixXd r c (\<lambda>i j. xss ! i ! j)"

definition mat_eq :: "MatrixXd \<Rightarrow> MatrixXd \<Rightarrow> bool" where
  "mat_eq a b \<longleftrightarrow>
     rows a = rows b \<and> cols a = cols b \<and>
     (\<forall>i<rows a. \<forall>j<cols a. coeff a i j = coeff b i j)"

definition madd :: "MatrixXd \<Rightarrow> MatrixXd \<Rightarrow> error + MatrixXd" where
  "madd a b =
     (if rows a = rows b \<and> cols a = cols b
      then Inr (MatrixXd (rows a) (cols a) (\<lambda>i j. coeff a i j + coeff b i j))
      else Inl ShapeMismatch)"

definition msub :: "MatrixXd \<Rightarrow> MatrixXd \<Rightarrow> error + MatrixXd" where
  "msub a b =
     (if rows a = rows b \<and> cols a = cols b
      then Inr (MatrixXd (rows a) (cols a) (\<lambda>i j. coeff a i j - coeff b i j))
      else Inl ShapeMismatch)"

definition mmul :: "MatrixXd \<Rightarrow> MatrixXd \<Rightarrow> error + MatrixXd" where
  "mmul a b =
     (if cols a = rows b
      then Inr (MatrixXd (rows a) (cols b) (\<lambda>i j. \<Sum>l<cols a. coeff a i l * coeff b l j))
      else Inl ShapeMismatch)"

definition mtranspose :: "MatrixXd \<Rightarrow> MatrixXd" where
  "mtranspose a = MatrixXd (cols a) (rows a) (\<lambda>i j. coeff a j i)"

subsection \<open>Grouped\<close>

text \<open>
  Modelled from the spec: \<^verbatim>\<open>Grouped<Key, Value>\<close> is declared outside this source file.
  It is "an ordered mapping from GroupKey to Value (one entry per group)": here the list
  of its entries in key order. The keys of a \<^verbatim>\<open>Grouped\<close> are pairwise distinct.
\<close>

type_synonym ('k, 'v) Grouped = "('k \<times> 'v) list"

text \<open>
  Modelled from the spec: the members \<^verbatim>\<open>size\<close>, \<^verbatim>\<open>keys\<close>, \<^verbatim>\<open>values\<close> and \<^verbatim>\<open>at\<close> of
  \<^verbatim>\<open>Grouped\<close> and the function \<^verbatim>\<open>map_contains\<close>, declared outside this source file, as
  they read on an ordered mapping. \<^verbatim>\<open>at\<close> fails on a key that is not present.
\<close>

definition Grouped_size :: "('k, 'v) Grouped \<Rightarrow> nat" where
  "Grouped_size g = length g"

definition Grouped_keys :: "('k, 'v) Grouped \<Rightarrow> 'k list" where
  "Grouped_keys g = map fst g"

definition Grouped_values :: "('k, 'v) Grouped \<Rightarrow> 'v list" where
  "Grouped_values g = map snd g"

definition map_contains :: "('k, 'v) Grouped \<Rightarrow> 'k \<Rightarrow> bool" where
  "map_contains g k \<longleftrightarrow> map_of g k \<noteq> None"

definition Grouped_at :: "('k, 'v) Grouped \<Rightarrow> 'k \<Rightarrow> error + 'v" where
  "Grouped_at g k = (case map_of g k of None \<Rightarrow> Inl KeyNotFound | Some v \<Rightarrow> Inr v)"

text \<open>
  Modelled from the spec: the member \<^verbatim>\<open>apply\<close> of \<^verbatim>\<open>Grouped\<close>, declared outside this
  source file. It calls the function on every entry in key order and collects the results
  under the same keys ("embarrassingly parallel across keys"); the first failure ends it.
  The function takes the key and the value, or the value alone.
\<close>

fun Grouped_apply ::
  "('k \<Rightarrow> 'v \<Rightarrow> error + 'w) \<Rightarrow> ('k, 'v) Grouped \<Rightarrow> error + ('k, 'w) Grouped" where
  "Grouped_apply f [] = Inr []"
| "Grouped_apply f ((k, v) # g) =
     (case f k v of
        Inl e \<Rightarrow> Inl e
      | Inr w \<Rightarrow> (case Grouped_apply f g of Inl e \<Rightarrow> Inl e | Inr g' \<Rightarrow> Inr ((k, w) # g')))"

definition Grouped_apply_values ::
  "('v \<Rightarrow> error + 'w) \<Rightarrow> ('k, 'v) Grouped \<Rightarrow> error + ('k, 'w) Grouped" where
  "Grouped_apply_values f g = Grouped_apply (\<lambda>k. f) g"

section \<open>Block matrix algebra\<close>

text \<open>
  \<^verbatim>\<open>one_group\<close> is the local function of \<^verbatim>\<open>block_accumulate\<close>; \<open>accumulate_loop\<close> is its
  \<^verbatim>\<open>for\<close> loop, which starts at index 1 with the first group's result as \<open>output\<close>.
\<close>

definition one_group ::
  "('k, 'x) Grouped \<Rightarrow> ('k, 'y) Grouped \<Rightarrow> ('x \<Rightarrow> 'y \<Rightarrow> error + MatrixXd) \<Rightarrow> 'k
     \<Rightarrow> error + MatrixXd" where
  "one_group lhs_g rhs_g apply_function k =
     (if map_contains lhs_g k \<and> map_contains rhs_g k
      then ebind (Grouped_at lhs_g k) (\<lambda>x. ebind (Grouped_at rhs_g k) (\<lambda>y. apply_function x y))
      else Inl PreconditionViolation)"

function accumulate_loop ::
  "('k \<Rightarrow> error + MatrixXd) \<Rightarrow> 'k list \<Rightarrow> nat \<Rightarrow> MatrixXd \<Rightarrow> error + MatrixXd" where
  "accumulate_loop group_fn ks i output =
     (if i < length ks
      then (case group_fn (ks ! i) of
              Inl e \<Rightarrow> Inl e
            | Inr m \<Rightarrow>
                (case madd output m of
                   Inl e \<Rightarrow> Inl e
                 | Inr output' \<Rightarrow> accumulate_loop group_fn ks (i + 1) output'))
      else Inr output)"
  by pat_completeness auto
termination
  by (relation "measure (\<lambda>(group_fn, ks, i, output). length ks - i)") auto

declare accumulate_loop.simps [simp del]

definition block_accumulate ::
  "('k, 'x) Grouped \<Rightarrow> ('k, 'y) Grouped \<Rightarrow> ('x \<Rightarrow> 'y \<Rightarrow> error + MatrixXd)
     \<Rightarrow> error + MatrixXd" where
  "block_accumulate lhs_g rhs_g apply_function =
     (if Grouped_size lhs_g \<noteq> Grouped_size rhs_g then Inl PreconditionViolation
      else if \<not> Grouped_size lhs_g > 0 then Inl PreconditionViolation
      else
        (let ks = Grouped_keys lhs_g in
         case one_group lhs_g rhs_g apply_function (ks ! 0) of
           Inl e \<Rightarrow> Inl e
         | Inr output \<Rightarrow> accumulate_loop (one_group lhs_g rhs_g apply_function) ks 1 output))"

definition block_product ::
  "('k, MatrixXd) Grouped \<Rightarrow> ('k, MatrixXd) Grouped \<Rightarrow> error + MatrixXd" where
  "block_product lhs_g rhs_g = block_accumulate lhs_g rhs_g (\<lambda>x y. mmul x y)"

definition block_inner_product ::
  "('k, MatrixXd) Grouped \<Rightarrow> ('k, MatrixXd) Grouped \<Rightarrow> error + MatrixXd" where
  "block_inner_product lhs_g rhs_g = block_accumulate lhs_g rhs_g (\<lambda>x y. mmul (mtranspose x) y)"

text \<open>
  \<^verbatim>\<open>block_solve\<close>: the parameter \<open>solve\<close> is the method \<^verbatim>\<open>Solver::solve\<close> of the
  factorization stored under each key of \<open>lhs_g\<close> (a class of the matrix library).
\<close>

definition block_solve ::
  "('s \<Rightarrow> 'r \<Rightarrow> error + 'o) \<Rightarrow> ('k, 's) Grouped \<Rightarrow> ('k, 'r) Grouped \<Rightarrow> error + ('k, 'o) Grouped" where
  "block_solve solve lhs_g rhs_g =
     Grouped_apply (\<lambda>k x. ebind (Grouped_at lhs_g k) (\<lambda>s. solve s x)) rhs_g"

section \<open>Boundary features between groups\<close>

text \<open>
  The two nested loops of \<^verbatim>\<open>build_boundary_features\<close>, over \<open>i\<close> and over \<open>j > i\<close>, and the
  final \<^verbatim>\<open>assert(boundary_features.size() > 0)\<close>.
\<close>

function boundary_loop_j ::
  "('k \<Rightarrow> 'k \<Rightarrow> 'f list) \<Rightarrow> 'k list \<Rightarrow> nat \<Rightarrow> nat \<Rightarrow> ('k, 'f) BoundaryFeature list
     \<Rightarrow> ('k, 'f) BoundaryFeature list" where
  "boundary_loop_j boundary_function groups i j boundary_features =
     (if j < length groups
      then
        (let next_boundary_features =
               as_boundary_features (groups ! i) (groups ! j)
                 (boundary_function (groups ! i) (groups ! j))
         in boundary_loop_j boundary_function groups i (j + 1)
              (if length next_boundary_features > 0
               then boundary_features @ next_boundary_features
               else boundary_features))
      else boundary_features)"
  by pat_completeness auto
termination
  by (relation "measure (\<lambda>(boundary_function, groups, i, j, bfs). length groups - j)") auto

declare boundary_loop_j.simps [simp del]

function boundary_loop_i ::
  "('k \<Rightarrow> 'k \<Rightarrow> 'f list) \<Rightarrow> 'k list \<Rightarrow> nat \<Rightarrow> ('k, 'f) BoundaryFeature list
     \<Rightarrow> ('k, 'f) BoundaryFeature list" where
  "boundary_loop_i boundary_function groups i boundary_features =
     (if i < length groups
      then boundary_loop_i boundary_function groups (i + 1)
             (boundary_loop_j boundary_function groups i (i + 1) boundary_features)
      else boundary_features)"
  by pat_completeness auto
termination
  by (relation "measure (\<lambda>(boundary_function, groups, i, bfs). length groups - i)") auto

declare boundary_loop_i.simps [simp del]

definition build_boundary_features ::
  "('k \<Rightarrow> 'k \<Rightarrow> 'f list) \<Rightarrow> 'k list \<Rightarrow> error + ('k, 'f) BoundaryFeature list" where
  "build_boundary_features boundary_function groups =
     (let boundary_features = boundary_loop_i boundary_function groups 0 []
      in if length boundary_features > 0 then Inr boundary_features
         else Inl PreconditionViolation)"

section \<open>Distribution\<close>

text \<open>
  A mean vector with an optional covariance; a covariance of size 0 means "absent". The
  result of \<^verbatim>\<open>get_diagonal\<close> is a \<^verbatim>\<open>double\<close> that may be the constant \<^verbatim>\<open>NAN\<close>.
\<close>

datatype double = Finite real | NaN

record Distribution =
  mean :: MatrixXd
  covariance :: MatrixXd
  metadata :: "(string \<times> string) list"

definition assert_valid :: "Distribution \<Rightarrow> error + unit" where
  "assert_valid d =
     (if msize (covariance d) > 0
      then (if rows (covariance d) \<noteq> cols (covariance d) then Inl PreconditionViolation
            else if msize (mean d) \<noteq> rows (covariance d) then Inl PreconditionViolation
            else Inr ())
      else Inr ())"

definition Distribution_size :: "Distribution \<Rightarrow> error + nat" where
  "Distribution_size d = ebind (assert_valid d) (\<lambda>_. Inr (msize (mean d)))"

definition has_covariance :: "Distribution \<Rightarrow> error + bool" where
  "has_covariance d = ebind (assert_valid d) (\<lambda>_. Inr (msize (covariance d) > 0))"

text \<open>\<^verbatim>\<open>covariance.diagonal()[i]\<close>, with the index check of the matrix library.\<close>

definition diagonal_at :: "MatrixXd \<Rightarrow> int \<Rightarrow> error + double" where
  "diagonal_at m i =
     (if 0 \<le> i \<and> i < int (min (rows m) (cols m))
      then Inr (Finite (coeff m (nat i) (nat i)))
      else Inl IndexOutOfBounds)"

definition get_diagonal :: "Distribution \<Rightarrow> int \<Rightarrow> error + double" where
  "get_diagonal d i =
     ebind (has_covariance d) (\<lambda>present. if present then diagonal_at (covariance d) i else Inr NaN)"

section \<open>The patchwork model: fit and predict\<close>

subsection \<open>Collaborators\<close>

text \<open>
  The members of \<^verbatim>\<open>PatchworkGaussianProcess\<close>: the covariance function (reached through
  the default caller on raw features) and the three patchwork functions.
\<close>

record ('f, 'k) PatchworkGaussianProcess =
  covariance_function :: "'f \<Rightarrow> 'f \<Rightarrow> real"
  grouper :: "'f \<Rightarrow> 'k"
  boundary :: "'k \<Rightarrow> 'k \<Rightarrow> 'f list"
  nearest_group :: "'k list \<Rightarrow> 'k \<Rightarrow> 'k"

text \<open>
  The single-group Gaussian process and the matrix factorization are used through their
  interfaces only: \<open>fit\<close> is \<^verbatim>\<open>m.fit(dataset)\<close>; \<open>predict_joint m fs\<close> is
  \<^verbatim>\<open>m.predict(fs).joint()\<close> and \<open>predict_mean m fs\<close> is \<^verbatim>\<open>m.predict(fs).mean()\<close>;
  \<open>train_features\<close> and \<open>train_covariance\<close> read \<^verbatim>\<open>m.get_fit()\<close>; \<open>ldlt\<close> factorizes a
  matrix and \<open>solve\<close> applies the inverse of a factorized matrix.
\<close>

record ('f, 't, 'm, 's) GaussianProcess =
  fit :: "('f \<times> 't) list \<Rightarrow> 'm"
  predict_joint :: "'m \<Rightarrow> 'f list \<Rightarrow> error + Distribution"
  predict_mean :: "'m \<Rightarrow> 'f list \<Rightarrow> error + MatrixXd"
  train_features :: "'m \<Rightarrow> 'f list"
  train_covariance :: "'m \<Rightarrow> 's"
  ldlt :: "MatrixXd \<Rightarrow> 's"
  solve :: "'s \<Rightarrow> MatrixXd \<Rightarrow> error + MatrixXd"

text \<open>The fitted state: one fitted single-group model per group.\<close>

record ('k, 'm) PatchworkGPFit =
  fit_models :: "('k, 'm) Grouped"

text \<open>
  Modelled from the spec: \<^verbatim>\<open>compute_covariance_matrix\<close> and \<^verbatim>\<open>group_by\<close> are declared
  outside this source file. The first is the "covariance matrix of" one sequence of
  features against another, one evaluation of the caller per pair. The second partitions
  a sequence "by grouping-function output" into a \<^verbatim>\<open>Grouped\<close>, each group keeping the
  order of the sequence.
\<close>

definition compute_covariance_matrix :: "('x \<Rightarrow> 'y \<Rightarrow> real) \<Rightarrow> 'x list \<Rightarrow> 'y list \<Rightarrow> MatrixXd" where
  "compute_covariance_matrix caller xs ys =
     MatrixXd (length xs) (length ys) (\<lambda>i j. caller (xs ! i) (ys ! j))"

fun group_insert :: "'k::linorder \<Rightarrow> 'a \<Rightarrow> ('k, 'a list) Grouped \<Rightarrow> ('k, 'a list) Grouped" where
  "group_insert k x [] = [(k, [x])]"
| "group_insert k x ((k', xs) # g) =
     (if k = k' then (k', xs @ [x]) # g
      else if k < k' then (k, [x]) # (k', xs) # g
      else (k', xs) # group_insert k x g)"

definition group_by :: "('a \<Rightarrow> 'k::linorder) \<Rightarrow> 'a list \<Rightarrow> ('k, 'a list) Grouped" where
  "group_by grouper_fn xs = foldl (\<lambda>g x. group_insert (grouper_fn x) x g) [] xs"

text \<open>The overload of \<^verbatim>\<open>as_group_features\<close> on a grouped collection of features.\<close>

definition as_group_features_grouped ::
  "('k, 'f list) Grouped \<Rightarrow> ('k, 'f) GroupFeature list" where
  "as_group_features_grouped grouped_features =
     concat (map (\<lambda>(k, features). as_group_features k features) grouped_features)"

text \<open>Assigning a matrix expression to a \<^verbatim>\<open>VectorXd\<close> needs a single column.\<close>

definition as_vector :: "MatrixXd \<Rightarrow> error + MatrixXd" where
  "as_vector m = (if cols m = 1 then Inr m else Inl ShapeMismatch)"

subsection \<open>Predict\<close>

definition get_obs_vector :: "('f, 't, 'm, 's) GaussianProcess \<Rightarrow> 'm \<Rightarrow> error + MatrixXd" where
  "get_obs_vector G fit_model = predict_mean G fit_model (train_features G fit_model)"

text \<open>
  The local function \<^verbatim>\<open>solver\<close>:
  \<^verbatim>\<open>A^-1 rhs + A^-1 C S^-1 C^T A^-1 rhs\<close> with \<open>A = C_dd\<close>, \<open>C = C_db\<close>, \<open>S = S_bb\<close>.
\<close>

definition solver ::
  "('f, 't, 'm, 's) GaussianProcess \<Rightarrow> ('k, 's) Grouped \<Rightarrow> ('k, MatrixXd) Grouped \<Rightarrow> 's
     \<Rightarrow> ('k, MatrixXd) Grouped \<Rightarrow> error + ('k, MatrixXd) Grouped" where
  "solver G C_dd C_db S_bb_ldlt rhs_g =
     ebind (block_solve (solve G) C_dd rhs_g) (\<lambda>Ai_rhs.
     ebind (block_accumulate C_db Ai_rhs
              (\<lambda>C_db_i Ai_rhs_i.
                 ebind (mmul (mtranspose C_db_i) Ai_rhs_i) (solve G S_bb_ldlt))) (\<lambda>SiCtAi_rhs.
     ebind (Grouped_apply (\<lambda>k C_db_i. mmul C_db_i SiCtAi_rhs) C_db) (\<lambda>CSiCtAi_rhs.
     ebind (block_solve (solve G) C_dd CSiCtAi_rhs) (\<lambda>output.
     Grouped_apply (\<lambda>k group. ebind (Grouped_at Ai_rhs k) (\<lambda>a. madd group a)) output))))"

text \<open>
  The loop that adds \<^verbatim>\<open>C_bb_ldlt.solve(C_bd_i.transpose() * information.at(key))\<close> to
  \<^verbatim>\<open>C_bb_inv_C_bd_information\<close> for every entry of \<open>C_db\<close>.
\<close>

fun accumulate_C_bb_inv_C_bd_information ::
  "('f, 't, 'm, 's) GaussianProcess \<Rightarrow> 's \<Rightarrow> ('k, MatrixXd) Grouped \<Rightarrow> ('k, MatrixXd) Grouped
     \<Rightarrow> MatrixXd \<Rightarrow> error + MatrixXd" where
  "accumulate_C_bb_inv_C_bd_information G C_bb_ldlt information [] acc = Inr acc"
| "accumulate_C_bb_inv_C_bd_information G C_bb_ldlt information ((k, C_bd_i) # C_db) acc =
     (case ebind (Grouped_at information k) (\<lambda>info.
             ebind (mmul (mtranspose C_bd_i) info) (\<lambda>p.
             ebind (solve G C_bb_ldlt p) (\<lambda>q. madd acc q))) of
        Inl e \<Rightarrow> Inl e
      | Inr acc' \<Rightarrow> accumulate_C_bb_inv_C_bd_information G C_bb_ldlt information C_db acc')"

text \<open>
  \<^verbatim>\<open>_predict_impl\<close> for a joint distribution. With exactly one group the prediction is
  delegated to the model of that group; otherwise the boundary features are built and the
  groups are coupled through the Schur complement \<open>S_bb\<close>. The values \<open>obs_vectors\<close> and
  \<open>C_bb_inv_C_bd_information\<close> are computed and not used, as in the source.
\<close>

definition predict_impl ::
  "('f, 'k::linorder) PatchworkGaussianProcess \<Rightarrow> ('f, 't, 'm, 's) GaussianProcess \<Rightarrow> 'f list
     \<Rightarrow> ('k, 'm) PatchworkGPFit \<Rightarrow> error + Distribution" where
  "predict_impl P G features patchwork_fit =
     (let fit_models = fit_models patchwork_fit in
      if Grouped_size fit_models = 1
      then predict_joint G (Grouped_values fit_models ! 0) features
      else
        ebind (Grouped_apply_values (get_obs_vector G) fit_models) (\<lambda>obs_vectors.
        ebind (build_boundary_features (boundary P) (Grouped_keys fit_models))
          (\<lambda>boundary_features.
        let k = covariance_function P;
            C_bb = compute_covariance_matrix (call_BoundaryFeature_BoundaryFeature k)
                     boundary_features boundary_features;
            C_bb_ldlt = ldlt G C_bb
        in
        ebind (Grouped_apply_values (\<lambda>fit_model. Inr (train_covariance G fit_model)) fit_models)
          (\<lambda>C_dd.
        ebind (Grouped_apply
                 (\<lambda>key fit_model.
                    Inr (compute_covariance_matrix (call_GroupFeature_BoundaryFeature k)
                           (as_group_features key (train_features G fit_model))
                           boundary_features))
                 fit_models) (\<lambda>C_db.
        ebind (block_solve (solve G) C_dd C_db) (\<lambda>C_dd_inv_C_db.
        ebind (block_inner_product C_db C_dd_inv_C_db) (\<lambda>CtAiC.
        ebind (msub C_bb CtAiC) (\<lambda>S_bb.
        let S_bb_ldlt = ldlt G S_bb in
        ebind (Grouped_apply_values (get_obs_vector G) fit_models) (\<lambda>ys.
        ebind (solver G C_dd C_db S_bb_ldlt ys) (\<lambda>information.
        ebind (accumulate_C_bb_inv_C_bd_information G C_bb_ldlt information C_db
                 (MatrixXd (rows C_bb) 1 (\<lambda>i j. 0))) (\<lambda>C_bb_inv_C_bd_information.
        let predict_grouper = (\<lambda>f. nearest_group P (Grouped_keys C_db) (grouper P f));
            grouped = group_by predict_grouper features;
            group_features = as_group_features_grouped grouped;
            C_fb = compute_covariance_matrix (call_GroupFeature_BoundaryFeature k)
                     group_features boundary_features
        in
        ebind (solve G C_bb_ldlt (mtranspose C_fb)) (\<lambda>C_bb_inv_C_bf.
        let C_fb_bb_inv = mtranspose C_bb_inv_C_bf in
        ebind (Grouped_apply
                 (\<lambda>key fit_model.
                    let train = as_group_features key (train_features G fit_model);
                        block = compute_covariance_matrix (call_GroupFeature_GroupFeature k)
                                  train group_features
                    in ebind (Grouped_at C_db key) (\<lambda>C_db_key.
                       ebind (mmul C_db_key (mtranspose C_fb_bb_inv)) (\<lambda>p. msub block p)))
                 fit_models) (\<lambda>cross_transpose.
        ebind (solver G C_dd C_db S_bb_ldlt cross_transpose) (\<lambda>C_dd_inv_cross.
        ebind (ebind (block_inner_product cross_transpose information) as_vector) (\<lambda>mean_v.
        ebind (block_inner_product cross_transpose C_dd_inv_cross) (\<lambda>explained.
        ebind (mmul C_fb_bb_inv (mtranspose C_fb)) (\<lambda>boundary_explained.
        ebind (msub (compute_covariance_matrix (call_GroupFeature_GroupFeature k)
                       group_features group_features) boundary_explained) (\<lambda>cov0.
        ebind (msub cov0 explained) (\<lambda>cov.
        Inr \<lparr>mean = mean_v, covariance = cov, metadata = []\<rparr>)))))))))))))))))))"

subsection \<open>Fit\<close>

text \<open>
  Modelled from the spec: \<^verbatim>\<open>RegressionDataset\<close> and its \<^verbatim>\<open>group_by\<close> are declared
  outside this source file. A dataset is the sequence of its (feature, target) pairs, and
  grouping it partitions the pairs by the group of the feature (\<open>group_by\<close> above, on the
  pairs).

  \<^verbatim>\<open>_fit_impl\<close> groups the dataset with the grouper and fits one single-group model per
  group.
\<close>

definition fit_impl ::
  "('f, 'k::linorder) PatchworkGaussianProcess \<Rightarrow> ('f, 't, 'm, 's) GaussianProcess
     \<Rightarrow> ('f \<times> 't) list \<Rightarrow> error + ('k, 'm) PatchworkGPFit" where
  "fit_impl P G dataset =
     ebind (Grouped_apply_values (\<lambda>group_dataset. Inr (fit G group_dataset))
              (group_by (\<lambda>(f, t). grouper P f) dataset))
       (\<lambda>models. Inr \<lparr>fit_models = models\<rparr>)"

section \<open>Properties of the covariance dispatch\<close>

lemma PatchworkCaller_direct:
  "PatchworkCallerBase_call k x y = Some v \<Longrightarrow> PatchworkCaller_call k x y = Some v"
  by (simp add: PatchworkCaller_call_def SymmetricCaller_call_def)

text \<open>
  A boundary feature against a group feature has no overload of its own: the symmetric
  caller evaluates the group-boundary overload on the swapped arguments.
\<close>

lemma PatchworkCaller_boundary_group:
  "PatchworkCaller_call k (Boundary y) (Group x) = Some (call_GroupFeature_BoundaryFeature k x y)"
  by (simp add: PatchworkCaller_call_def SymmetricCaller_call_def)

text \<open>
  The boundary-boundary overload read as one chain of cases, for all keys (also when a
  feature has \<open>lhs = rhs\<close>). A pair of boundary features with swapped keys (\<open>xl = yr\<close> and
  \<open>xr = yl\<close>) reaches the final \<open>0\<close>.
\<close>

lemma call_BoundaryFeature_BoundaryFeature_chain:
  "call_BoundaryFeature_BoundaryFeature k (BoundaryFeature xl xr fx) (BoundaryFeature yl yr fy) =
     (if xl = yl \<and> xr = yr then 2 * k fx fy
      else if xl = yl \<or> xr = yr then k fx fy
      else if (xl = yr) \<noteq> (xr = yl) then - k fx fy
      else 0)"
  by (simp add: call_BoundaryFeature_BoundaryFeature_def)

text \<open>
  Claim C1. The dispatch table of the covariance evaluator, cell by cell, for boundary
  features with \<open>lhs \<noteq> rhs\<close> (the data model's invariant of a boundary feature):
  two group features give \<open>k fx fy\<close> for equal keys and \<open>0\<close> otherwise; a group feature
  against a boundary feature gives \<open>k\<close> when its key is the boundary's \<open>lhs\<close>, \<open>- k\<close> when it
  is the boundary's \<open>rhs\<close>, and \<open>0\<close> otherwise; two boundary features give \<open>2 * k\<close> when both
  sides agree, \<open>k\<close> when exactly one of the sides agrees, \<open>- k\<close> when the \<open>lhs\<close> of one is the
  \<open>rhs\<close> of the other and the remaining sides differ, and \<open>0\<close> when no side matches.
\<close>

theorem dispatch_table:
  fixes k :: "'f \<Rightarrow> 'f \<Rightarrow> real"
  assumes "xl \<noteq> xr" and "yl \<noteq> yr"
  shows "PatchworkCallerBase_call k (Group (GroupFeature kx fx)) (Group (GroupFeature ky fy))
           = Some (if kx = ky then k fx fy else 0)
    \<and> (kx = yl \<longrightarrow>
         PatchworkCallerBase_call k (Group (GroupFeature kx fx))
           (Boundary (BoundaryFeature yl yr fy)) = Some (k fx fy))
    \<and> (kx = yr \<longrightarrow>
         PatchworkCallerBase_call k (Group (GroupFeature kx fx))
           (Boundary (BoundaryFeature yl yr fy)) = Some (- k fx fy))
    \<and> (kx \<noteq> yl \<and> kx \<noteq> yr \<longrightarrow>
         PatchworkCallerBase_call k (Group (GroupFeature kx fx))
           (Boundary (BoundaryFeature yl yr fy)) = Some 0)
    \<and> (xl = yl \<and> xr = yr \<longrightarrow>
         PatchworkCallerBase_call k (Boundary (BoundaryFeature xl xr fx))
           (Boundary (BoundaryFeature yl yr fy)) = Some (2 * k fx fy))
    \<and> ((xl = yl \<and> xr \<noteq> yr) \<or> (xl \<noteq> yl \<and> xr = yr) \<longrightarrow>
         PatchworkCallerBase_call k (Boundary (BoundaryFeature xl xr fx))
           (Boundary (BoundaryFeature yl yr fy)) = Some (k fx fy))
    \<and> ((xl = yr \<and> xr \<noteq> yl) \<or> (xl \<noteq> yr \<and> xr = yl) \<longrightarrow>
         PatchworkCallerBase_call k (Boundary (BoundaryFeature xl xr fx))
           (Boundary (BoundaryFeature yl yr fy)) = Some (- k fx fy))
    \<and> (xl \<noteq> yl \<and> xr \<noteq> yr \<and> xl \<noteq> yr \<and> xr \<noteq> yl \<longrightarrow>
         PatchworkCallerBase_call k (Boundary (BoundaryFeature xl xr fx))
           (Boundary (BoundaryFeature yl yr fy)) = Some 0)"
  using assms
  by (auto simp: call_GroupFeature_GroupFeature_def call_GroupFeature_BoundaryFeature_def
      call_BoundaryFeature_BoundaryFeature_def)

theorem dispatch_table_witness:
  "PatchworkCallerBase_call (\<lambda>a b. a * b) (Group (GroupFeature (1::nat) 3))
        (Group (GroupFeature 1 5)) = Some 15
   \<and> PatchworkCallerBase_call (\<lambda>a b. a * b) (Group (GroupFeature (2::nat) 3))
        (Boundary (BoundaryFeature 1 2 5)) = Some (- 15)
   \<and> PatchworkCallerBase_call (\<lambda>a b. a * b) (Boundary (BoundaryFeature (1::nat) 2 3))
        (Boundary (BoundaryFeature 1 2 5)) = Some 30
   \<and> PatchworkCallerBase_call (\<lambda>a b. a * b) (Boundary (BoundaryFeature (1::nat) 2 3))
        (Boundary (BoundaryFeature 1 3 5)) = Some 15
   \<and> PatchworkCallerBase_call (\<lambda>a b. a * b) (Boundary (BoundaryFeature (1::nat) 2 3))
        (Boundary (BoundaryFeature 3 1 5)) = Some (- 15)
   \<and> PatchworkCallerBase_call (\<lambda>a b. a * b) (Boundary (BoundaryFeature (1::nat) 2 3))
        (Boundary (BoundaryFeature 3 4 5)) = Some 0"
  using dispatch_table [where xl = "1::nat" and xr = 2 and yl = 1 and yr = 2
                          and k = "\<lambda>a b. a * b" and kx = 1 and ky = 1 and fx = 3 and fy = 5]
        dispatch_table [where xl = "1::nat" and xr = 2 and yl = 1 and yr = 2
                          and k = "\<lambda>a b. a * b" and kx = 2 and ky = 1 and fx = 3 and fy = 5]
        dispatch_table [where xl = "1::nat" and xr = 2 and yl = 1 and yr = 3
                          and k = "\<lambda>a b. a * b" and kx = 2 and ky = 1 and fx = 3 and fy = 5]
        dispatch_table [where xl = "1::nat" and xr = 2 and yl = 3 and yr = 1
                          and k = "\<lambda>a b. a * b" and kx = 2 and ky = 1 and fx = 3 and fy = 5]
        dispatch_table [where xl = "1::nat" and xr = 2 and yl = 3 and yr = 4
                          and k = "\<lambda>a b. a * b" and kx = 2 and ky = 1 and fx = 3 and fy = 5]
  by simp

text \<open>
  Claim C3. Swapping the keys of a boundary feature should negate its covariance with any
  argument. Evaluated with the constant covariance function \<open>1\<close> and the keys \<open>0\<close> and \<open>1\<close>:
  the covariance of \<open>BoundaryFeature 0 1 f\<close> with itself is \<open>2\<close>, and the covariance of the
  swapped \<open>BoundaryFeature 1 0 f\<close> with \<open>BoundaryFeature 0 1 f\<close> is \<open>0\<close>, not \<open>- 2\<close>.
\<close>

theorem boundary_swap_evaluation:
  "PatchworkCaller_call (\<lambda>a b. 1) (Boundary (BoundaryFeature (0::nat) 1 (0::nat)))
      (Boundary (BoundaryFeature 0 1 0)) = Some 2
   \<and> PatchworkCaller_call (\<lambda>a b. 1) (Boundary (BoundaryFeature (1::nat) 0 (0::nat)))
      (Boundary (BoundaryFeature 0 1 0)) = Some 0"
  by (simp add: PatchworkCaller_call_def SymmetricCaller_call_def
      call_BoundaryFeature_BoundaryFeature_def)

text \<open>
  The swap does negate the covariance with a group feature, and with a boundary feature
  over another pair of distinct keys.
\<close>

lemma boundary_swap_group:
  "a \<noteq> b \<Longrightarrow>
   call_GroupFeature_BoundaryFeature k g (BoundaryFeature a b f)
     = - call_GroupFeature_BoundaryFeature k g (BoundaryFeature b a f)"
  by (simp add: call_GroupFeature_BoundaryFeature_def)

lemma boundary_swap_other_pair:
  "a \<noteq> b \<Longrightarrow> yl \<noteq> yr \<Longrightarrow> (yl, yr) \<noteq> (a, b) \<Longrightarrow> (yl, yr) \<noteq> (b, a) \<Longrightarrow>
   call_BoundaryFeature_BoundaryFeature k (BoundaryFeature a b f) (BoundaryFeature yl yr h)
     = - call_BoundaryFeature_BoundaryFeature k (BoundaryFeature b a f) (BoundaryFeature yl yr h)"
  by (auto simp: call_BoundaryFeature_BoundaryFeature_def)

text \<open>
  Claim C8. For a symmetric covariance function \<open>k\<close> the extended evaluator is symmetric
  in its two arguments, whatever their kinds, and on two raw features it is \<open>k\<close> itself.
\<close>

theorem PatchworkCaller_symmetric:
  fixes k :: "'f \<Rightarrow> 'f \<Rightarrow> real"
  assumes sym: "\<And>a b. k a b = k b a"
  shows "PatchworkCaller_call k x y = PatchworkCaller_call k y x
       \<and> PatchworkCaller_call k (Raw a) (Raw b) = Some (k a b)"
proof
  show "PatchworkCaller_call k x y = PatchworkCaller_call k y x"
    by (cases x; cases y)
      (auto simp: PatchworkCaller_call_def SymmetricCaller_call_def sym
        call_GroupFeature_GroupFeature_def call_BoundaryFeature_BoundaryFeature_def)
  show "PatchworkCaller_call k (Raw a) (Raw b) = Some (k a b)"
    by (simp add: PatchworkCaller_call_def SymmetricCaller_call_def)
qed

theorem PatchworkCaller_symmetric_witness:
  "PatchworkCaller_call (\<lambda>a b. a * b) (Boundary (BoundaryFeature (1::nat) 2 (3::real)))
        (Group (GroupFeature (2::nat) (5::real)))
     = PatchworkCaller_call (\<lambda>a b. a * b) (Group (GroupFeature (2::nat) (5::real)))
        (Boundary (BoundaryFeature (1::nat) 2 (3::real)))
   \<and> PatchworkCaller_call (\<lambda>a b. a * b) (Raw 3) (Raw 5 :: (nat, real) arg) = Some 15"
  using PatchworkCaller_symmetric [where k = "\<lambda>a b :: real. a * b"
      and x = "Boundary (BoundaryFeature (1::nat) 2 3)" and y = "Group (GroupFeature 2 5)"
      and a = 3 and b = 5]
  by (simp add: mult.commute)

section \<open>Properties of the boundary construction\<close>

lemma boundary_loop_j_empty:
  "(\<And>j'. j \<le> j' \<Longrightarrow> j' < length groups \<Longrightarrow> bf (groups ! i) (groups ! j') = [])
   \<Longrightarrow> boundary_loop_j bf groups i j acc = acc"
proof (induction bf groups i j acc rule: boundary_loop_j.induct)
  case (1 bf groups i j acc)
  show ?case
  proof (cases "j < length groups")
    case True
    have e: "bf (groups ! i) (groups ! j) = []" using "1.prems" True by simp
    have "boundary_loop_j bf groups i (j + 1) acc = acc"
      using "1.IH"[OF True refl] "1.prems" e by simp
    then show ?thesis using True e by (subst boundary_loop_j.simps) simp
  next
    case False
    then show ?thesis by (subst boundary_loop_j.simps) simp
  qed
qed

lemma boundary_loop_i_empty:
  "(\<And>i' j'. i \<le> i' \<Longrightarrow> i' < j' \<Longrightarrow> j' < length groups
      \<Longrightarrow> bf (groups ! i') (groups ! j') = [])
   \<Longrightarrow> boundary_loop_i bf groups i acc = acc"
proof (induction bf groups i acc rule: boundary_loop_i.induct)
  case (1 bf groups i acc)
  show ?case
  proof (cases "i < length groups")
    case True
    have j: "boundary_loop_j bf groups i (i + 1) acc = acc"
      by (rule boundary_loop_j_empty) (use "1.prems" in simp)
    have "boundary_loop_i bf groups (i + 1) acc = acc"
      using "1.IH"[OF True] "1.prems" j by simp
    then show ?thesis using True j by (subst boundary_loop_i.simps) simp
  next
    case False
    then show ?thesis by (subst boundary_loop_i.simps) simp
  qed
qed

text \<open>
  Claim C4. With more than one group, when the boundary function returns the empty
  sequence for every pair of groups, \<open>build_boundary_features\<close> fails with a precondition
  violation (its final assertion).
\<close>

theorem build_boundary_features_empty_fails:
  assumes "1 < length groups"
    and "\<forall>i j. i < j \<and> j < length groups
           \<longrightarrow> boundary_function (groups ! i) (groups ! j) = []"
  shows "build_boundary_features boundary_function groups = Inl PreconditionViolation"
proof -
  have "boundary_loop_i boundary_function groups 0 [] = []"
    by (rule boundary_loop_i_empty) (use assms(2) in simp)
  then show ?thesis by (simp add: build_boundary_features_def)
qed

theorem build_boundary_features_empty_fails_witness:
  "1 < length [1::nat, 2]
   \<and> build_boundary_features (\<lambda>x y. ([]::nat list)) [1::nat, 2] = Inl PreconditionViolation"
  using build_boundary_features_empty_fails [of "[1::nat, 2]" "\<lambda>x y. ([]::nat list)"]
  by simp

lemma as_boundary_features_keys:
  "b \<in> set (as_boundary_features l r fs) \<Longrightarrow> lhs b = l \<and> rhs b = r"
  by (induction fs) (auto simp: as_boundary_feature_def)

lemma boundary_loop_j_pairs:
  "\<lbrakk>\<forall>b\<in>set acc. \<exists>i' j'. i' < j' \<and> j' < length groups
        \<and> lhs b = groups ! i' \<and> rhs b = groups ! j'; i < j\<rbrakk>
   \<Longrightarrow> \<forall>b\<in>set (boundary_loop_j bf groups i j acc).
         \<exists>i' j'. i' < j' \<and> j' < length groups \<and> lhs b = groups ! i' \<and> rhs b = groups ! j'"
proof (induction bf groups i j acc rule: boundary_loop_j.induct)
  case (1 bf groups i j acc)
  show ?case
  proof (cases "j < length groups")
    case True
    let ?nb = "as_boundary_features (groups ! i) (groups ! j) (bf (groups ! i) (groups ! j))"
    let ?acc' = "if length ?nb > 0 then acc @ ?nb else acc"
    have nb: "\<forall>b\<in>set ?nb. \<exists>i' j'. i' < j' \<and> j' < length groups
        \<and> lhs b = groups ! i' \<and> rhs b = groups ! j'"
      using True "1.prems"(2) by (auto dest!: as_boundary_features_keys)
    have "\<forall>b\<in>set (boundary_loop_j bf groups i (j + 1) ?acc').
        \<exists>i' j'. i' < j' \<and> j' < length groups \<and> lhs b = groups ! i' \<and> rhs b = groups ! j'"
      by (rule "1.IH"[OF True refl]) (use "1.prems" nb in auto)
    then show ?thesis using True by (subst boundary_loop_j.simps) (simp add: Let_def)
  next
    case False
    then show ?thesis using "1.prems" by (subst boundary_loop_j.simps) simp
  qed
qed

lemma boundary_loop_i_pairs:
  "\<forall>b\<in>set acc. \<exists>i' j'. i' < j' \<and> j' < length groups
      \<and> lhs b = groups ! i' \<and> rhs b = groups ! j'
   \<Longrightarrow> \<forall>b\<in>set (boundary_loop_i bf groups i acc).
         \<exists>i' j'. i' < j' \<and> j' < length groups \<and> lhs b = groups ! i' \<and> rhs b = groups ! j'"
proof (induction bf groups i acc rule: boundary_loop_i.induct)
  case (1 bf groups i acc)
  show ?case
  proof (cases "i < length groups")
    case True
    have "\<forall>b\<in>set (boundary_loop_j bf groups i (i + 1) acc).
        \<exists>i' j'. i' < j' \<and> j' < length groups \<and> lhs b = groups ! i' \<and> rhs b = groups ! j'"
      by (rule boundary_loop_j_pairs) (use "1.prems" in auto)
    then have "\<forall>b\<in>set (boundary_loop_i bf groups (i + 1)
                 (boundary_loop_j bf groups i (i + 1) acc)).
        \<exists>i' j'. i' < j' \<and> j' < length groups \<and> lhs b = groups ! i' \<and> rhs b = groups ! j'"
      by (rule "1.IH"[OF True])
    then show ?thesis using True by (subst boundary_loop_i.simps) simp
  next
    case False
    then show ?thesis using "1.prems" by (subst boundary_loop_i.simps) simp
  qed
qed

lemma build_boundary_features_example:
  "build_boundary_features (\<lambda>x y. [x + y]) [1::nat, 2] = Inr [BoundaryFeature 1 2 3]"
  by (simp add: build_boundary_features_def boundary_loop_i.simps boundary_loop_j.simps
      as_boundary_feature_def)

text \<open>
  Claim C9, as stated: every boundary feature ever constructed has \<open>lhs \<noteq> rhs\<close>. The
  constructor checks nothing: \<open>as_boundary_feature 0 0 f\<close> has equal sides, and so has the
  feature that \<open>build_boundary_features\<close> returns for the group list \<open>[1, 1]\<close>.
\<close>

theorem boundary_feature_equal_sides_counterexample:
  "lhs (as_boundary_feature (0::nat) 0 (0::nat)) = rhs (as_boundary_feature (0::nat) 0 (0::nat))
   \<and> build_boundary_features (\<lambda>x y. [x + y]) [1::nat, 1] = Inr [BoundaryFeature 1 1 2]"
  by (simp add: build_boundary_features_def boundary_loop_i.simps boundary_loop_j.simps
      as_boundary_feature_def)

text \<open>
  Claim C9, amended. For pairwise distinct group keys (the keys of a \<^verbatim>\<open>Grouped\<close>, as
  \<^verbatim>\<open>_predict_impl\<close> passes them), every boundary feature that \<open>build_boundary_features\<close>
  returns has \<open>lhs = groups ! i\<close> and \<open>rhs = groups ! j\<close> for some \<open>i < j\<close>, hence
  \<open>lhs \<noteq> rhs\<close>.
\<close>

theorem build_boundary_features_distinct_sides:
  assumes "distinct groups"
    and "build_boundary_features boundary_function groups = Inr boundary_features"
  shows "\<forall>b\<in>set boundary_features.
           lhs b \<noteq> rhs b
           \<and> (\<exists>i j. i < j \<and> j < length groups \<and> lhs b = groups ! i \<and> rhs b = groups ! j)"
proof
  fix b assume b: "b \<in> set boundary_features"
  have "boundary_features = boundary_loop_i boundary_function groups 0 []"
    using assms(2) by (simp add: build_boundary_features_def Let_def split: if_splits)
  then have "\<exists>i j. i < j \<and> j < length groups \<and> lhs b = groups ! i \<and> rhs b = groups ! j"
    using boundary_loop_i_pairs[of "[]" groups boundary_function 0] b by simp
  then obtain i j where ij: "i < j" "j < length groups" "lhs b = groups ! i" "rhs b = groups ! j"
    by auto
  then have "groups ! i \<noteq> groups ! j"
    using assms(1) by (simp add: nth_eq_iff_index_eq)
  then show "lhs b \<noteq> rhs b
           \<and> (\<exists>i j. i < j \<and> j < length groups \<and> lhs b = groups ! i \<and> rhs b = groups ! j)"
    using ij by auto
qed

theorem build_boundary_features_distinct_sides_witness:
  "distinct [1::nat, 2]
   \<and> build_boundary_features (\<lambda>x y. [x + y]) [1::nat, 2] = Inr [BoundaryFeature 1 2 3]
   \<and> lhs (BoundaryFeature (1::nat) 2 (3::nat)) \<noteq> rhs (BoundaryFeature (1::nat) 2 (3::nat))"
  using build_boundary_features_distinct_sides [OF _ build_boundary_features_example]
    build_boundary_features_example
  by simp

section \<open>Properties of the block matrix algebra\<close>

lemma accumulate_loop_sum:
  assumes "\<And>n. n < length ks \<Longrightarrow> g (ks ! n) = Inr (M (ks ! n))"
    and "\<And>n. n < length ks \<Longrightarrow> rows (M (ks ! n)) = r \<and> cols (M (ks ! n)) = c"
    and "rows out = r" and "cols out = c"
  shows "accumulate_loop g ks i out =
         Inr (MatrixXd r c
               (\<lambda>a b. coeff out a b + (\<Sum>n = i..<length ks. coeff (M (ks ! n)) a b)))"
  using assms
proof (induction g ks i out rule: accumulate_loop.induct)
  case (1 g ks i out)
  show ?case
  proof (cases "i < length ks")
    case True
    let ?out' = "MatrixXd r c (\<lambda>a b. coeff out a b + coeff (M (ks ! i)) a b)"
    have g: "g (ks ! i) = Inr (M (ks ! i))" using "1.prems"(1) True by simp
    have add: "madd out (M (ks ! i)) = Inr ?out'"
      using "1.prems" True by (simp add: madd_def)
    have IH: "accumulate_loop g ks (i + 1) ?out' =
         Inr (MatrixXd r c
               (\<lambda>a b. coeff ?out' a b + (\<Sum>n = i + 1..<length ks. coeff (M (ks ! n)) a b)))"
      by (rule "1.IH"[OF True g add]) (use "1.prems" in simp_all)
    have "accumulate_loop g ks i out = accumulate_loop g ks (i + 1) ?out'"
      using True g add by (subst accumulate_loop.simps) simp
    also have "\<dots> = Inr (MatrixXd r c
               (\<lambda>a b. coeff ?out' a b + (\<Sum>n = i + 1..<length ks. coeff (M (ks ! n)) a b)))"
      by (rule IH)
    also have "(\<lambda>a b. coeff ?out' a b + (\<Sum>n = i + 1..<length ks. coeff (M (ks ! n)) a b))
        = (\<lambda>a b. coeff out a b + (\<Sum>n = i..<length ks. coeff (M (ks ! n)) a b))"
      using True by (intro ext) (simp add: sum.atLeast_Suc_lessThan add.assoc)
    finally show ?thesis .
  next
    case False
    then have "accumulate_loop g ks i out = Inr out"
      by (subst accumulate_loop.simps) simp
    moreover have "MatrixXd r c
        (\<lambda>a b. coeff out a b + (\<Sum>n = i..<length ks. coeff (M (ks ! n)) a b)) = out"
      using False "1.prems"(3,4) by (cases out) simp
    ultimately show ?thesis by simp
  qed
qed

lemma map_contains_iff: "map_contains g k \<longleftrightarrow> k \<in> set (Grouped_keys g)"
  by (simp add: map_contains_def Grouped_keys_def map_of_eq_None_iff)

lemma Grouped_at_member:
  "k \<in> set (Grouped_keys g) \<Longrightarrow> Grouped_at g k = Inr (the (map_of g k))"
  by (auto simp: Grouped_at_def Grouped_keys_def map_of_eq_None_iff split: option.splits)

lemma Grouped_at_missing:
  "k \<notin> set (Grouped_keys g) \<Longrightarrow> Grouped_at g k = Inl KeyNotFound"
  by (auto simp: Grouped_at_def Grouped_keys_def map_of_eq_None_iff split: option.splits)

lemma Grouped_at_entry:
  "distinct (Grouped_keys g) \<Longrightarrow> (k, v) \<in> set g \<Longrightarrow> Grouped_at g k = Inr v"
  by (simp add: Grouped_at_def Grouped_keys_def)

lemma one_group_member:
  "k \<in> set (Grouped_keys lhs_g) \<Longrightarrow> k \<in> set (Grouped_keys rhs_g) \<Longrightarrow>
   one_group lhs_g rhs_g f k = f (the (map_of lhs_g k)) (the (map_of rhs_g k))"
  by (simp add: one_group_def map_contains_iff Grouped_at_member ebind_def)

lemma block_accumulate_total:
  fixes lhs_g :: "('k, 'x) Grouped" and rhs_g :: "('k, 'y) Grouped"
  assumes dl: "distinct (Grouped_keys lhs_g)" and dr: "distinct (Grouped_keys rhs_g)"
    and ne: "lhs_g \<noteq> []"
    and keys: "set (Grouped_keys lhs_g) = set (Grouped_keys rhs_g)"
    and f: "\<And>k. k \<in> set (Grouped_keys lhs_g) \<Longrightarrow>
              apply_function (the (map_of lhs_g k)) (the (map_of rhs_g k)) = Inr (M k)
              \<and> rows (M k) = r \<and> cols (M k) = c"
  shows "block_accumulate lhs_g rhs_g apply_function =
         Inr (MatrixXd r c (\<lambda>i j. \<Sum>k\<in>set (Grouped_keys lhs_g). coeff (M k) i j))"
proof -
  let ?ks = "Grouped_keys lhs_g"
  let ?g = "one_group lhs_g rhs_g apply_function"
  have len: "Grouped_size lhs_g = Grouped_size rhs_g"
  proof -
    have "length (Grouped_keys lhs_g) = card (set (Grouped_keys lhs_g))"
      using dl by (simp add: distinct_card)
    also have "\<dots> = length (Grouped_keys rhs_g)"
      using dr keys by (simp add: distinct_card)
    finally show ?thesis by (simp add: Grouped_size_def Grouped_keys_def)
  qed
  have pos: "0 < length ?ks" using ne by (simp add: Grouped_keys_def)
  have g: "?g (?ks ! n) = Inr (M (?ks ! n))" if "n < length ?ks" for n
  proof -
    have "?ks ! n \<in> set ?ks" using that by simp
    then show ?thesis using keys f by (simp add: one_group_member)
  qed
  have shape: "rows (M (?ks ! n)) = r \<and> cols (M (?ks ! n)) = c" if "n < length ?ks" for n
    using f[of "?ks ! n"] that by simp
  have loop: "accumulate_loop ?g ?ks 1 (M (?ks ! 0)) =
      Inr (MatrixXd r c
            (\<lambda>a b. coeff (M (?ks ! 0)) a b
                     + (\<Sum>n = 1..<length ?ks. coeff (M (?ks ! n)) a b)))"
    by (rule accumulate_loop_sum) (use g shape pos in auto)
  have sum: "coeff (M (?ks ! 0)) a b + (\<Sum>n = 1..<length ?ks. coeff (M (?ks ! n)) a b)
       = (\<Sum>k\<in>set ?ks. coeff (M k) a b)" for a b
  proof -
    have "(\<Sum>k\<in>set ?ks. coeff (M k) a b) = sum_list (map (\<lambda>k. coeff (M k) a b) ?ks)"
      using dl by (simp add: sum_list_distinct_conv_sum_set)
    also have "\<dots> = (\<Sum>n = 0..<length ?ks. coeff (M (?ks ! n)) a b)"
      by (simp add: sum_list_sum_nth)
    also have "\<dots> = coeff (M (?ks ! 0)) a b
        + (\<Sum>n = 1..<length ?ks. coeff (M (?ks ! n)) a b)"
      using pos by (simp add: sum.atLeast_Suc_lessThan)
    finally show ?thesis by simp
  qed
  have first: "?g (?ks ! 0) = Inr (M (?ks ! 0))" using g pos by simp
  have "block_accumulate lhs_g rhs_g apply_function = accumulate_loop ?g ?ks 1 (M (?ks ! 0))"
    using len pos first by (simp add: block_accumulate_def Grouped_size_def Grouped_keys_def)
  also have "\<dots> = Inr (MatrixXd r c (\<lambda>a b. \<Sum>k\<in>set ?ks. coeff (M k) a b))"
    unfolding loop sum ..
  finally show ?thesis .
qed

text \<open>
  Claim C6. For two non-empty grouped collections with the same keys, whose blocks under
  key \<open>k\<close> are \<open>X k\<close> and \<open>Y k\<close>, and an apply function whose result \<open>M k\<close> has the same shape
  \<open>r \<times> c\<close> for every key, \<open>block_accumulate\<close> returns the \<open>r \<times> c\<close> matrix whose coefficients
  are the sums over all keys of the coefficients of \<open>M k\<close>.
\<close>

theorem block_accumulate_sum:
  fixes lhs_g :: "('k, 'x) Grouped" and rhs_g :: "('k, 'y) Grouped"
  assumes "distinct (Grouped_keys lhs_g)" and "distinct (Grouped_keys rhs_g)"
    and "lhs_g \<noteq> []" and "rhs_g \<noteq> []"
    and "set (Grouped_keys lhs_g) = set (Grouped_keys rhs_g)"
    and "\<forall>k\<in>set (Grouped_keys lhs_g).
           Grouped_at lhs_g k = Inr (X k) \<and> Grouped_at rhs_g k = Inr (Y k)
           \<and> apply_function (X k) (Y k) = Inr (M k) \<and> rows (M k) = r \<and> cols (M k) = c"
  shows "block_accumulate lhs_g rhs_g apply_function =
         Inr (MatrixXd r c (\<lambda>i j. \<Sum>k\<in>set (Grouped_keys lhs_g). coeff (M k) i j))"
proof (rule block_accumulate_total)
  fix k assume k: "k \<in> set (Grouped_keys lhs_g)"
  then have "k \<in> set (Grouped_keys rhs_g)" using assms(5) by simp
  then have "the (map_of lhs_g k) = X k" "the (map_of rhs_g k) = Y k"
    using assms(6) k by (auto simp: Grouped_at_member)
  then show "apply_function (the (map_of lhs_g k)) (the (map_of rhs_g k)) = Inr (M k)
      \<and> rows (M k) = r \<and> cols (M k) = c"
    using assms(6) k by simp
qed (use assms in simp_all)

theorem block_accumulate_sum_witness:
  "block_accumulate [(1::nat, 2::real), (2, 3)] [(1::nat, 10::real), (2, 100)]
      (\<lambda>x y. Inr (MatrixXd 1 1 (\<lambda>i j. x * y)))
     = Inr (MatrixXd 1 1 (\<lambda>i j. 320))"
  using block_accumulate_sum [where lhs_g = "[(1::nat, 2::real), (2, 3)]"
      and rhs_g = "[(1::nat, 10::real), (2, 100)]"
      and apply_function = "\<lambda>x y. Inr (MatrixXd 1 1 (\<lambda>i j. x * y))"
      and X = "\<lambda>k. if k = 1 then 2 else 3" and Y = "\<lambda>k. if k = 1 then 10 else 100"
      and M = "\<lambda>k. MatrixXd 1 1 (\<lambda>i j. if k = 1 then 20 else 300)" and r = 1 and c = 1]
  by (simp add: Grouped_at_def Grouped_keys_def)

lemma Grouped_apply_ok:
  "(\<And>k v. (k, v) \<in> set g \<Longrightarrow> f k v = Inr (h k v))
   \<Longrightarrow> Grouped_apply f g = Inr (map (\<lambda>(k, v). (k, h k v)) g)"
  by (induction g) auto

lemma Grouped_apply_fail:
  "(k, v) \<in> set g \<Longrightarrow> isl (f k v) \<Longrightarrow> isl (Grouped_apply f g)"
  by (induction g) (auto split: sum.splits)

text \<open>
  Claim C7, as stated: \<open>block_solve\<close> fails when the key sets of its operands differ. With
  the keys \<open>1\<close> and \<open>2\<close> on the left and the key \<open>1\<close> alone on the right the key sets differ,
  and \<open>block_solve\<close> returns the solved block for key \<open>1\<close> without any failure.
\<close>

theorem block_solve_extra_keys_counterexample:
  "set (Grouped_keys [(1::nat, ()), (2, ())]) \<noteq> set (Grouped_keys [(1::nat, 5::nat)])
   \<and> block_solve (\<lambda>s x. Inr x) [(1::nat, ()), (2, ())] [(1::nat, 5::nat)]
       = (Inr [(1, 5)] :: error + (nat \<times> nat) list)"
  by (simp add: block_solve_def Grouped_keys_def Grouped_at_def ebind_def)

text \<open>
  Claim C7, amended. When every key of the right operand has a solver on the left and
  every block is solved, with solution \<open>sol k x\<close> for the block \<open>x\<close> under key \<open>k\<close>,
  \<open>block_solve\<close> returns the entries of the right operand, in its key order, each block
  replaced by its solution; keys that only the left operand has are ignored. When some
  key of the right operand is missing on the left, \<open>block_solve\<close> fails.
\<close>

theorem block_solve_keys:
  "((\<forall>(k, x)\<in>set rhs_g. \<exists>s. Grouped_at lhs_g k = Inr s \<and> solve_fn s x = Inr (sol k x))
      \<longrightarrow> block_solve solve_fn lhs_g rhs_g = Inr (map (\<lambda>(k, x). (k, sol k x)) rhs_g))
   \<and> ((\<exists>k\<in>set (Grouped_keys rhs_g). k \<notin> set (Grouped_keys lhs_g))
      \<longrightarrow> isl (block_solve solve_fn lhs_g rhs_g))"
proof (intro conjI impI)
  assume a: "\<forall>(k, x)\<in>set rhs_g. \<exists>s. Grouped_at lhs_g k = Inr s \<and> solve_fn s x = Inr (sol k x)"
  show "block_solve solve_fn lhs_g rhs_g = Inr (map (\<lambda>(k, x). (k, sol k x)) rhs_g)"
    unfolding block_solve_def
    by (rule Grouped_apply_ok) (use a in \<open>auto simp: ebind_def\<close>)
next
  assume "\<exists>k\<in>set (Grouped_keys rhs_g). k \<notin> set (Grouped_keys lhs_g)"
  then obtain k x where kx: "(k, x) \<in> set rhs_g" and "k \<notin> set (Grouped_keys lhs_g)"
    by (auto simp: Grouped_keys_def)
  then have "isl (ebind (Grouped_at lhs_g k) (\<lambda>s. solve_fn s x))"
    by (simp add: Grouped_at_missing ebind_def)
  then show "isl (block_solve solve_fn lhs_g rhs_g)"
    unfolding block_solve_def using kx by (rule Grouped_apply_fail[rotated])
qed

theorem block_solve_keys_witness:
  "block_solve (\<lambda>s x. Inr (x div s)) [(1::nat, 2::nat), (2, 3)] [(1::nat, 10::nat), (2, 9)]
     = (Inr [(1, 5), (2, 3)] :: error + (nat \<times> nat) list)
   \<and> isl (block_solve (\<lambda>s x. (Inr (x div s) :: error + nat)) [(1::nat, 2::nat)]
            [(1::nat, 10::nat), (2, 9)])"
  using block_solve_keys [where rhs_g = "[(1::nat, 10::nat), (2, 9)]"
      and lhs_g = "[(1::nat, 2::nat), (2, 3)]"
      and solve_fn = "\<lambda>s x. (Inr (x div s) :: error + nat)"
      and sol = "\<lambda>k x. if k = 1 then x div 2 else x div 3"]
    block_solve_keys [where rhs_g = "[(1::nat, 10::nat), (2, 9)]"
      and lhs_g = "[(1::nat, 2::nat)]" and solve_fn = "\<lambda>s x. (Inr (x div s) :: error + nat)"
      and sol = "\<lambda>k x. x"]
  by (simp add: Grouped_at_def Grouped_keys_def)

lemma map_of_map_keyed:
  "k \<in> fst ` set g \<Longrightarrow> map_of (map (\<lambda>(k, v). (k, h k)) g) k = Some (h k)"
  by (induction g) auto

text \<open>
  Claim C5, as stated: \<open>block_product A (block_solve A B)\<close> is \<open>B\<close>. With two groups whose
  blocks of \<open>A\<close> are the \<open>1 \<times> 1\<close> identity (solved exactly by the identity function) and
  whose blocks of \<open>B\<close> are both \<open>[[1]]\<close>, the product is the single matrix \<open>[[2]]\<close>: not a
  grouped collection, none of the blocks of \<open>B\<close>, and not their stacking.
\<close>

theorem block_product_block_solve_counterexample:
  "map_sum id to_lists
     (ebind (block_solve (\<lambda>s x. Inr x) [(1::nat, ()), (2, ())]
               [(1::nat, of_lists 1 1 [[1]]), (2, of_lists 1 1 [[1]])])
        (block_product [(1::nat, of_lists 1 1 [[1]]), (2, of_lists 1 1 [[1]])]))
     = Inr [[2]]
   \<and> map (\<lambda>(k, b). to_lists b) [(1::nat, of_lists 1 1 [[1]]), (2, of_lists 1 1 [[1]])]
     = [[[1]], [[1]]]"
  by (simp add: block_solve_def ebind_def Grouped_at_def block_product_def
      block_accumulate_def Grouped_size_def Grouped_keys_def one_group_def map_contains_def
      accumulate_loop.simps mmul_def madd_def of_lists_def to_lists_def)

text \<open>
  Claim C5, amended. Let \<open>A\<close>, its factorizations \<open>A_ldlt\<close> and \<open>B\<close> have the same keys, with
  blocks \<open>Ak k\<close>, \<open>Sk k\<close> and \<open>Bk k\<close>, every \<open>Bk k\<close> of shape \<open>r \<times> c\<close>, and let every solve be
  exact: the solution \<open>Xk k\<close> satisfies \<open>Ak k * Xk k == Bk k\<close>. Then
  \<open>block_product A (block_solve A_ldlt B)\<close> is the sum of the blocks of \<open>B\<close> over all keys
  (which is the block of \<open>B\<close> itself when there is one group).
\<close>

theorem block_product_block_solve_sum:
  fixes A :: "('k, MatrixXd) Grouped" and A_ldlt :: "('k, 's) Grouped"
    and B :: "('k, MatrixXd) Grouped"
  assumes dA: "distinct (Grouped_keys A)" and dB: "distinct (Grouped_keys B)"
    and ne: "A \<noteq> []"
    and keys: "set (Grouped_keys A) = set (Grouped_keys B)"
    and blocks: "\<forall>k\<in>set (Grouped_keys A).
           Grouped_at A k = Inr (Ak k) \<and> Grouped_at A_ldlt k = Inr (Sk k)
           \<and> Grouped_at B k = Inr (Bk k) \<and> rows (Bk k) = r \<and> cols (Bk k) = c"
    and exact: "\<forall>k\<in>set (Grouped_keys A).
           solve_fn (Sk k) (Bk k) = Inr (Xk k) \<and> mmul (Ak k) (Xk k) = Inr (Pk k)
           \<and> mat_eq (Pk k) (Bk k)"
  shows "\<exists>M. ebind (block_solve solve_fn A_ldlt B) (block_product A) = Inr M
           \<and> mat_eq M (MatrixXd r c (\<lambda>i j. \<Sum>k\<in>set (Grouped_keys A). coeff (Bk k) i j))"
proof -
  let ?X = "map (\<lambda>(k, b). (k, Xk k)) B"
  have entry: "b = Bk k \<and> k \<in> set (Grouped_keys A)" if "(k, b) \<in> set B" for k b
  proof -
    have k: "k \<in> set (Grouped_keys A)"
      using that keys by (force simp: Grouped_keys_def)
    have "Grouped_at B k = Inr b" using dB that by (rule Grouped_at_entry)
    then show ?thesis using blocks k by auto
  qed
  have solved: "block_solve solve_fn A_ldlt B = Inr ?X"
    unfolding block_solve_def
    by (rule Grouped_apply_ok) (use entry blocks exact in \<open>auto simp: ebind_def\<close>)
  have keysX: "Grouped_keys ?X = Grouped_keys B"
    by (simp add: Grouped_keys_def case_prod_unfold comp_def)
  have atX: "the (map_of ?X k) = Xk k" if "k \<in> set (Grouped_keys A)" for k
  proof -
    have "k \<in> fst ` set B" using that keys by (simp add: Grouped_keys_def)
    then show ?thesis by (simp add: map_of_map_keyed)
  qed
  have acc: "block_accumulate A ?X (\<lambda>x y. mmul x y) =
      Inr (MatrixXd r c (\<lambda>i j. \<Sum>k\<in>set (Grouped_keys A). coeff (Pk k) i j))"
  proof (rule block_accumulate_total)
    show "distinct (Grouped_keys A)" by (rule dA)
    show "distinct (Grouped_keys ?X)" using dB keysX by simp
    show "A \<noteq> []" by (rule ne)
    show "set (Grouped_keys A) = set (Grouped_keys ?X)" using keys keysX by simp
    fix k assume k: "k \<in> set (Grouped_keys A)"
    have "the (map_of A k) = Ak k"
      using blocks k by (auto simp: Grouped_at_member)
    moreover have "rows (Pk k) = r \<and> cols (Pk k) = c"
      using exact blocks k by (auto simp: mat_eq_def)
    ultimately show "mmul (the (map_of A k)) (the (map_of ?X k)) = Inr (Pk k)
        \<and> rows (Pk k) = r \<and> cols (Pk k) = c"
      using atX[OF k] exact k by simp
  qed
  have eq: "mat_eq (MatrixXd r c (\<lambda>i j. \<Sum>k\<in>set (Grouped_keys A). coeff (Pk k) i j))
      (MatrixXd r c (\<lambda>i j. \<Sum>k\<in>set (Grouped_keys A). coeff (Bk k) i j))"
  proof -
    have "(\<Sum>k\<in>set (Grouped_keys A). coeff (Pk k) i j)
        = (\<Sum>k\<in>set (Grouped_keys A). coeff (Bk k) i j)" if "i < r" "j < c" for i j
    proof (rule sum.cong)
      fix k assume k: "k \<in> set (Grouped_keys A)"
      then have "mat_eq (Pk k) (Bk k)" "rows (Bk k) = r" "cols (Bk k) = c"
        using exact blocks by auto
      then show "coeff (Pk k) i j = coeff (Bk k) i j"
        using that by (simp add: mat_eq_def)
    qed simp
    then show ?thesis by (simp add: mat_eq_def)
  qed
  show ?thesis
    using solved acc eq by (auto simp: ebind_def block_product_def)
qed

theorem block_product_block_solve_sum_witness:
  "\<exists>M. ebind (block_solve (\<lambda>s x. Inr (MatrixXd (rows x) (cols x) (\<lambda>i j. coeff x i j / s)))
              [(1::nat, 2::real), (2, 4)]
              [(1::nat, MatrixXd 1 1 (\<lambda>i j. 6)), (2, MatrixXd 1 1 (\<lambda>i j. 8))])
         (block_product [(1::nat, MatrixXd 1 1 (\<lambda>i j. 2)), (2, MatrixXd 1 1 (\<lambda>i j. 4))])
         = Inr M
       \<and> mat_eq M (MatrixXd 1 1 (\<lambda>i j. 14))"
  using block_product_block_solve_sum
    [where A = "[(1::nat, MatrixXd 1 1 (\<lambda>i j. 2)), (2, MatrixXd 1 1 (\<lambda>i j. 4))]"
      and A_ldlt = "[(1::nat, 2::real), (2, 4)]"
      and B = "[(1::nat, MatrixXd 1 1 (\<lambda>i j. 6)), (2, MatrixXd 1 1 (\<lambda>i j. 8))]"
      and solve_fn = "\<lambda>s x. Inr (MatrixXd (rows x) (cols x) (\<lambda>i j. coeff x i j / s))"
      and Ak = "\<lambda>k. MatrixXd 1 1 (\<lambda>i j. if k = 1 then 2 else 4)"
      and Sk = "\<lambda>k. if k = 1 then 2 else 4"
      and Bk = "\<lambda>k. MatrixXd 1 1 (\<lambda>i j. if k = 1 then 6 else 8)"
      and Xk = "\<lambda>k. MatrixXd 1 1 (\<lambda>i j. if k = 1 then 3 else 2)"
      and Pk = "\<lambda>k. MatrixXd 1 1 (\<lambda>i j. if k = 1 then 6 else 8)"
      and r = 1 and c = 1]
  by (simp add: Grouped_at_def Grouped_keys_def mmul_def mat_eq_def)

section \<open>Properties of Distribution\<close>

text \<open>
  Claim C10. For a distribution that passes \<open>assert_valid\<close> (the invariant of the data
  model) \<open>get_diagonal d i\<close> is the \<open>i\<close>-th diagonal coefficient of the covariance when the
  covariance is present (its size is positive) and \<open>i\<close> is an index of it, and \<open>NaN\<close> when
  the covariance is absent.
\<close>

theorem get_diagonal_entry_or_nan:
  assumes "assert_valid d = Inr ()"
  shows "(0 < msize (covariance d) \<and> 0 \<le> i \<and> i < int (rows (covariance d))
           \<longrightarrow> get_diagonal d i = Inr (Finite (coeff (covariance d) (nat i) (nat i))))
       \<and> (\<not> 0 < msize (covariance d) \<longrightarrow> get_diagonal d i = Inr NaN)"
  using assms
  by (auto simp: get_diagonal_def has_covariance_def ebind_def assert_valid_def diagonal_at_def
      split: if_splits)

theorem get_diagonal_entry_or_nan_witness:
  "get_diagonal \<lparr>mean = of_lists 2 1 [[1], [2]], covariance = of_lists 2 2 [[4, 1], [1, 9]],
       metadata = []\<rparr> 1 = Inr (Finite 9)
   \<and> get_diagonal \<lparr>mean = of_lists 2 1 [[1], [2]], covariance = of_lists 0 0 [],
       metadata = []\<rparr> 1 = Inr NaN"
  using get_diagonal_entry_or_nan [where i = 1 and
      d = "\<lparr>mean = of_lists 2 1 [[1], [2]], covariance = of_lists 2 2 [[4, 1], [1, 9]],
            metadata = []\<rparr>"]
    get_diagonal_entry_or_nan [where i = 1 and
      d = "\<lparr>mean = of_lists 2 1 [[1], [2]], covariance = of_lists 0 0 [], metadata = []\<rparr>"]
  by (simp add: assert_valid_def msize_def of_lists_def)

text \<open>
  A distribution that violates the invariant (a \<open>2 \<times> 2\<close> covariance with a mean of length
  \<open>1\<close>) fails the assertion of \<open>has_covariance\<close> instead.
\<close>

lemma get_diagonal_invalid:
  "get_diagonal \<lparr>mean = of_lists 1 1 [[1]], covariance = of_lists 2 2 [[4, 1], [1, 9]],
       metadata = []\<rparr> 0 = Inl PreconditionViolation"
  by (simp add: get_diagonal_def has_covariance_def ebind_def assert_valid_def msize_def
      of_lists_def)

section \<open>Properties of fit and predict\<close>

lemma predict_impl_single:
  "fit_models patchwork_fit = [(gk, fit_model)]
   \<Longrightarrow> predict_impl P G features patchwork_fit = predict_joint G fit_model features"
  by (simp add: predict_impl_def Grouped_size_def Grouped_values_def)

lemma foldl_group_insert_same:
  "foldl (\<lambda>g x. group_insert c x g) [(c, ys)] xs = [(c, ys @ xs)]"
  by (induction xs arbitrary: ys) simp_all

lemma group_by_constant:
  assumes "xs \<noteq> []" and "\<And>x. grouper_fn x = c"
  shows "group_by grouper_fn xs = [(c, xs)]"
proof -
  obtain x xs' where xs: "xs = x # xs'" using assms(1) by (cases xs) auto
  show ?thesis
    by (simp add: group_by_def assms(2) xs foldl_group_insert_same)
qed

lemma fit_impl_constant:
  assumes "dataset \<noteq> []" and "\<And>f. grouper P f = c"
  shows "fit_impl P G dataset = Inr \<lparr>fit_models = [(c, fit G dataset)]\<rparr>"
proof -
  have "group_by (\<lambda>(f, t). grouper P f) dataset = [(c, dataset)]"
    by (rule group_by_constant) (use assms in \<open>auto simp: case_prod_unfold\<close>)
  then show ?thesis
    by (simp add: fit_impl_def Grouped_apply_values_def ebind_def)
qed

text \<open>
  The failure of \<open>build_boundary_features\<close> is the result of the prediction: with more
  than one group and a boundary function that always returns the empty sequence,
  \<open>predict_impl\<close> fails with the precondition violation.
\<close>

lemma predict_impl_degenerate_boundary:
  assumes "1 < Grouped_size (fit_models patchwork_fit)"
    and "\<And>x y. boundary P x y = []"
    and "Grouped_apply_values (get_obs_vector G) (fit_models patchwork_fit) = Inr obs_vectors"
  shows "predict_impl P G features patchwork_fit = Inl PreconditionViolation"
proof -
  have "boundary_loop_i (boundary P) (Grouped_keys (fit_models patchwork_fit)) 0 [] = []"
    by (rule boundary_loop_i_empty) (simp add: assms(2))
  then have "build_boundary_features (boundary P) (Grouped_keys (fit_models patchwork_fit))
      = Inl PreconditionViolation"
    by (simp add: build_boundary_features_def)
  then show ?thesis
    using assms(1,3) by (simp add: predict_impl_def ebind_def)
qed

text \<open>
  Claim C2. When the fitted state holds exactly one group, the patchwork joint prediction
  is the joint prediction of that group's fitted model, for all query features; and a
  model whose grouping function is constant, fitted on a non-empty dataset, predicts as
  the single-group model fitted on the whole dataset does.
\<close>

theorem single_group_equivalence:
  "(fit_models patchwork_fit = [(gk, fit_model)]
      \<longrightarrow> predict_impl P G features patchwork_fit = predict_joint G fit_model features)
   \<and> (dataset \<noteq> [] \<and> (\<forall>f. grouper P f = c)
      \<longrightarrow> ebind (fit_impl P G dataset) (predict_impl P G features)
            = predict_joint G (fit G dataset) features)"
proof (intro conjI impI)
  assume "fit_models patchwork_fit = [(gk, fit_model)]"
  then show "predict_impl P G features patchwork_fit = predict_joint G fit_model features"
    by (rule predict_impl_single)
next
  assume a: "dataset \<noteq> [] \<and> (\<forall>f. grouper P f = c)"
  then have "fit_impl P G dataset = Inr \<lparr>fit_models = [(c, fit G dataset)]\<rparr>"
    by (intro fit_impl_constant) auto
  then show "ebind (fit_impl P G dataset) (predict_impl P G features)
            = predict_joint G (fit G dataset) features"
    by (simp add: ebind_def predict_impl_single)
qed

theorem single_group_equivalence_witness:
  "ebind (fit_impl
      \<lparr>covariance_function = (\<lambda>a b. 1), grouper = (\<lambda>f. 0::nat), boundary = (\<lambda>a b. []),
        nearest_group = (\<lambda>ks q. q)\<rparr>
      \<lparr>fit = (\<lambda>d. map snd d),
        predict_joint = (\<lambda>m fs. Inr \<lparr>mean = MatrixXd (length fs) 1 (\<lambda>i j. sum_list m),
           covariance = MatrixXd 0 0 (\<lambda>i j. 0), metadata = []\<rparr>),
        predict_mean = (\<lambda>m fs. Inr (MatrixXd (length fs) 1 (\<lambda>i j. sum_list m))),
        train_features = (\<lambda>m. []), train_covariance = (\<lambda>m. ()), ldlt = (\<lambda>m. ()),
        solve = (\<lambda>s x. Inr x)\<rparr>
      [(1::nat, 2::real), (2, 3)])
    (predict_impl
      \<lparr>covariance_function = (\<lambda>a b. 1), grouper = (\<lambda>f. 0::nat), boundary = (\<lambda>a b. []),
        nearest_group = (\<lambda>ks q. q)\<rparr>
      \<lparr>fit = (\<lambda>d. map snd d),
        predict_joint = (\<lambda>m fs. Inr \<lparr>mean = MatrixXd (length fs) 1 (\<lambda>i j. sum_list m),
           covariance = MatrixXd 0 0 (\<lambda>i j. 0), metadata = []\<rparr>),
        predict_mean = (\<lambda>m fs. Inr (MatrixXd (length fs) 1 (\<lambda>i j. sum_list m))),
        train_features = (\<lambda>m. []), train_covariance = (\<lambda>m. ()), ldlt = (\<lambda>m. ()),
        solve = (\<lambda>s x. Inr x)\<rparr>
      [5::nat, 6, 7])
   = Inr \<lparr>mean = MatrixXd 3 1 (\<lambda>i j. 5), covariance = MatrixXd 0 0 (\<lambda>i j. 0), metadata = []\<rparr>"
  using single_group_equivalence [where dataset = "[(1::nat, 2::real), (2, 3)]" and c = "0::nat"
      and features = "[5::nat, 6, 7]"
      and P = "\<lparr>covariance_function = (\<lambda>a b. 1), grouper = (\<lambda>f. 0::nat),
        boundary = (\<lambda>a b. []), nearest_group = (\<lambda>ks q. q)\<rparr>"
      and G = "\<lparr>fit = (\<lambda>d. map snd d),
        predict_joint = (\<lambda>m fs. Inr \<lparr>mean = MatrixXd (length fs) 1 (\<lambda>i j. sum_list m),
           covariance = MatrixXd 0 0 (\<lambda>i j. 0), metadata = []\<rparr>),
        predict_mean = (\<lambda>m fs. Inr (MatrixXd (length fs) 1 (\<lambda>i j. sum_list m))),
        train_features = (\<lambda>m. []), train_covariance = (\<lambda>m. ()), ldlt = (\<lambda>m. ()),
        solve = (\<lambda>s x. Inr x)\<rparr>"]
  by simp

end
